theory Spec2Isabelle
  imports Main "HOL-Library.Word"
begin

section \<open>JavaScript values, strings and the JSON serializer\<close>

text \<open>
  A JavaScript string is held as the list of its UTF-8 bytes, so \<open>length\<close> is the
  number of bytes the string occupies on the wire, and the \<open>length\<close> property of the
  JavaScript string (its number of UTF-16 code units) is \<open>js_length\<close>: one unit for a
  character of one to three bytes, two units (a surrogate pair) for a character of four
  bytes, nothing for a continuation byte.
\<close>

definition js_length :: "string \<Rightarrow> nat" where
  "js_length s =
     sum_list (map (\<lambda>c. let b = (of_char c :: nat) in
                          if b < 0x80 then 1 else if b < 0xC0 then 0
                          else if b < 0xF0 then 1 else 2) s)"

definition digit_char :: "nat \<Rightarrow> char" where
  "digit_char d = ''0123456789abcdef'' ! d"

text \<open>
  \<open>String(n)\<close> for a natural number: the decimal digits, most significant first.
\<close>

fun decimal :: "nat \<Rightarrow> string" where
  "decimal n =
     (if n div 10 = 0 then [] else decimal (n div 10)) @ [digit_char (n mod 10)]"

declare decimal.simps [simp del]

text \<open>
  \<open>Number::toString\<close> for an integral number of magnitude below \<open>2^53\<close>, held as a
  signed word of 54 bits: every such number is a JavaScript number and prints as its
  decimal digits.
\<close>

definition Number_toString :: "54 word \<Rightarrow> string" where
  "Number_toString n =
     (if 0 \<le> sint n then decimal (nat (sint n)) else CHR ''-'' # decimal (nat (- sint n)))"

text \<open>\<open>Array.prototype.join\<close> and \<open>String.prototype.split\<close> with a one-character separator.\<close>

fun join :: "string \<Rightarrow> string list \<Rightarrow> string" where
  "join sep [] = []"
| "join sep [x] = x"
| "join sep (x # y # ys) = x @ sep @ join sep (y # ys)"

primrec split :: "char \<Rightarrow> string \<Rightarrow> string list" where
  "split sep [] = [[]]"
| "split sep (c # cs) =
     (if c = sep then [] # split sep cs
      else (case split sep cs of [] \<Rightarrow> [[c]] | l # ls \<Rightarrow> (c # l) # ls))"

text \<open>
  The values a handler can hand over as \<open>data: any\<close> and a request can carry as its body:
  \<open>undefined\<close>, \<open>null\<close>, booleans, integral numbers of magnitude below \<open>2^53\<close>,
  strings, arrays and plain objects (the own enumerable properties, in enumeration order,
  each key once). Functions, symbols, cyclic objects and other numbers are not
  represented.
\<close>

datatype jsval =
    JUndefined
  | JNull
  | JBool bool
  | JNum "54 word"
  | JStr string
  | JArr "jsval list"
  | JObj "(string \<times> jsval) list"

text \<open>
  \<open>JSON.stringify\<close> with one argument, on these values. The result \<open>None\<close> is the
  JavaScript result \<open>undefined\<close> (serializing \<open>undefined\<close> itself). Inside an array
  \<open>undefined\<close> prints as \<open>null\<close>; a property whose value is \<open>undefined\<close> is left out.
\<close>

definition QuoteJSONChar :: "char \<Rightarrow> string" where
  "QuoteJSONChar c =
     (if c = CHR 0x22 then [CHR 0x5C, CHR 0x22]
      else if c = CHR 0x5C then [CHR 0x5C, CHR 0x5C]
      else if c = CHR 0x08 then [CHR 0x5C, CHR ''b'']
      else if c = CHR 0x0C then [CHR 0x5C, CHR ''f'']
      else if c = CHR 0x0A then [CHR 0x5C, CHR ''n'']
      else if c = CHR 0x0D then [CHR 0x5C, CHR ''r'']
      else if c = CHR 0x09 then [CHR 0x5C, CHR ''t'']
      else if (of_char c :: nat) < 32
        then [CHR 0x5C, CHR ''u'', CHR ''0'', CHR ''0'',
              digit_char (of_char c div 16), digit_char (of_char c mod 16)]
      else [c])"

definition QuoteJSONString :: "string \<Rightarrow> string" where
  "QuoteJSONString s = [CHR 0x22] @ concat (map QuoteJSONChar s) @ [CHR 0x22]"

primrec JSON_stringify :: "jsval \<Rightarrow> string option" where
  "JSON_stringify JUndefined = None"
| "JSON_stringify JNull = Some ''null''"
| "JSON_stringify (JBool b) = Some (if b then ''true'' else ''false'')"
| "JSON_stringify (JNum n) = Some (Number_toString n)"
| "JSON_stringify (JStr s) = Some (QuoteJSONString s)"
| "JSON_stringify (JArr vs) =
     Some (''['' @ join '',''
             (map (\<lambda>r. case r of None \<Rightarrow> ''null'' | Some t \<Rightarrow> t)
                  (map JSON_stringify vs)) @ '']'')"
| "JSON_stringify (JObj kvs) =
     Some (''{'' @ join '',''
             (concat (map (\<lambda>(k, r). case r of None \<Rightarrow> []
                                      | Some t \<Rightarrow> [QuoteJSONString k @ '':'' @ t])
                          (map (map_prod id JSON_stringify) kvs))) @ ''}'')"

section \<open>Errors, promises and what the engine supplies\<close>

text \<open>
  An \<open>Error\<close> object: \<open>name\<close>, \<open>message\<close>, the engine's optional \<open>stack\<close> text, and
  the extra own property \<open>error\<close> that \<open>NameAwareError\<close> adds (absent on other errors;
  the field is written \<open>error'\<close> to leave the name free for the source's variables).
\<close>

record js_error =
  name :: string
  message :: string
  error' :: "string option"
  stack :: "string option"

text \<open>
  What a \<open>throw\<close> throws, a promise rejects with and a \<open>catch\<close> catches is any
  value: an \<open>Error\<close> object, or one of the values above (\<open>throw null\<close>,
  \<open>Promise.reject()\<close>, \<open>throw "text"\<close>).
\<close>

datatype thrown = Error_object js_error | Thrown_value jsval

text \<open>
  A promise is taken as it has settled (one that never settles is not represented).
  Calling a function that is typed to return a promise has two outcomes: it throws
  before returning one, or returns one. \<open>await\<close> inside a \<open>try\<close> block or an
  \<open>async\<close> function sees a synchronous throw and a rejection alike.
\<close>

datatype 'a promise = Resolved 'a | Rejected thrown

datatype 'a call = Throws thrown | Returns "'a promise"

fun await :: "'a call \<Rightarrow> thrown + 'a" where
  "await (Throws e) = Inl e"
| "await (Returns (Rejected e)) = Inl e"
| "await (Returns (Resolved v)) = Inr v"

text \<open>
  The promise an \<open>async\<close> function hands back when its last statement throws an
  error of the engine or returns.
\<close>

fun async_result :: "js_error + 'a \<Rightarrow> 'a promise" where
  "async_result (Inl e) = Rejected (Error_object e)"
| "async_result (Inr v) = Resolved v"

text \<open>
  What the code takes from the JavaScript engine and cannot be read off the repository:
  \<^item> \<open>JSON.parse\<close> (\<open>Inl\<close> is the thrown \<open>SyntaxError\<close>);
  \<^item> the stack text of an error made by \<open>new\<close>, if the engine keeps one; it is
    formatted when first read, from the name and the message the error has by then;
  \<^item> the \<open>TypeError\<close> thrown when \<open>length\<close> is read from \<open>undefined\<close>;
  \<^item> the \<open>TypeError\<close> thrown when a property (second argument) is read from
    \<open>undefined\<close> or \<open>null\<close> (first argument);
  \<^item> the \<open>TypeError\<close> thrown when \<open>error.stack?.split\<close> is called and is not a function.
\<close>

record engine =
  JSON_parse :: "string \<Rightarrow> js_error + jsval"
  stack_trace :: "string \<Rightarrow> string \<Rightarrow> string option"
  TypeError_length :: js_error
  TypeError_property :: "jsval \<Rightarrow> string \<Rightarrow> js_error"
  TypeError_split :: js_error

section \<open>Container.ts\<close>

definition NameAwareError :: "engine \<Rightarrow> string \<Rightarrow> string \<Rightarrow> js_error" where
  "NameAwareError E nm msg =
     \<lparr> name = nm, message = msg, error' = Some msg, stack = stack_trace E nm msg \<rparr>"

definition ContainerMissingServiceErrorName :: string where
  "ContainerMissingServiceErrorName = ''ContainerMissingServiceInitiatorError''"

definition ContainerMissingServiceError :: "engine \<Rightarrow> string \<Rightarrow> js_error" where
  \<open>ContainerMissingServiceError E service =
     (let message = join '' ''
            [''The service "'' @ service @ ''" has no initiator provided.'',
             ''Please provide an initiator for this service before calling it.'']
      in NameAwareError E ContainerMissingServiceErrorName message)\<close>

text \<open>
  The mutable part of a container is its \<open>cache\<close>. \<open>cache st k\<close> is what the read
  \<open>this.cache[k]\<close> returns, \<open>None\<close> for \<open>undefined\<close> (no such property, or a property
  holding \<open>undefined\<close>: the code cannot tell them apart); instances of type \<open>'s\<close> are
  compared by identity. \<open>world\<close> is everything else an initiator can change.
  \<open>invoked\<close> is not in the source: it records, in order, the names whose initiator
  \<open>service\<close> has called, so that invocations can be counted.
\<close>

record ('s, 'w) Container_state =
  cache :: "string \<Rightarrow> 's option"
  invoked :: "string list"
  world :: 'w

text \<open>
  The constructor sets \<open>this.cache = {}\<close>. An empty object literal has no property of
  its own but inherits those of \<open>Object.prototype\<close>: reading one of these names gives
  the inherited member, which is defined, and reading any other name gives
  \<open>undefined\<close>. \<open>inherited k\<close> is the member of \<open>Object.prototype\<close> called \<open>k\<close>, as a
  value of the type of the instances. The assignment \<open>this.cache[k] = v\<close> of
  \<open>service\<close> is reached only for a name that reads as \<open>undefined\<close>; it makes an own
  property, which is read from then on, also when \<open>v\<close> is \<open>undefined\<close>.
\<close>

definition Object_prototype_names :: "string list" where
  "Object_prototype_names =
     [''constructor'', ''__defineGetter__'', ''__defineSetter__'', ''hasOwnProperty'',
      ''__lookupGetter__'', ''__lookupSetter__'', ''isPrototypeOf'', ''propertyIsEnumerable'',
      ''toString'', ''valueOf'', ''__proto__'', ''toLocaleString'']"

definition empty_object :: "(string \<Rightarrow> 's) \<Rightarrow> string \<Rightarrow> 's option" where
  "empty_object inherited k =
     (if k \<in> set Object_prototype_names then Some (inherited k) else None)"

definition new_Container_state :: "(string \<Rightarrow> 's) \<Rightarrow> 'w \<Rightarrow> ('s, 'w) Container_state" where
  "new_Container_state inherited w =
     \<lparr> cache = empty_object inherited, invoked = [], world = w \<rparr>"

text \<open>
  An initiator is called with the container: it may use it (and so change its state)
  before it throws or returns its promise.
\<close>

type_synonym ('s, 'w) ContainerServiceInitiator =
  "('s, 'w) Container_state \<Rightarrow> 's option call \<times> ('s, 'w) Container_state"

text \<open>
  The fields fixed by the constructor. \<open>initiator C k\<close> is what \<open>this.initiator[k]\<close>
  returns, \<open>None\<close> for \<open>undefined\<close>: a map written as an object literal inherits the
  members of \<open>Object.prototype\<close>, which read as defined, and a map made without
  prototype reads as \<open>undefined\<close> wherever it has no entry. (The copy of the class in
  \<open>unnamed/part_001\<close> has one more field, \<open>parameters\<close>, which \<open>service\<close> does not
  read; its \<open>service\<close> is the same text.)
\<close>

record ('s, 'w, 'e) Container =
  environment :: 'e
  initiator :: "string \<Rightarrow> ('s, 'w) ContainerServiceInitiator option"

definition service ::
  "engine \<Rightarrow> ('s, 'w, 'e) Container \<Rightarrow> string \<Rightarrow> ('s, 'w) Container_state
     \<Rightarrow> 's option promise \<times> ('s, 'w) Container_state" where
  "service E C k st =
     (case cache st k of
        Some cached \<Rightarrow> (Resolved (Some cached), st)
      | None \<Rightarrow>
          (case initiator C k of
             None \<Rightarrow> (Rejected (Error_object (ContainerMissingServiceError E k)), st)
           | Some init \<Rightarrow>
               (case init (st\<lparr>invoked := invoked st @ [k]\<rparr>) of
                  (r, st') \<Rightarrow>
                    (case await r of
                       Inl e \<Rightarrow> (Rejected e, st')
                     | Inr constructed \<Rightarrow>
                         (Resolved constructed,
                          st'\<lparr>cache := (cache st')(k := constructed)\<rparr>)))))"

section \<open>http/response.ts\<close>

definition ResponseHeader_ContentType :: string where
  "ResponseHeader_ContentType = ''content-type''"

definition ResponseHeader_ContentLength :: string where
  "ResponseHeader_ContentLength = ''content-length''"

definition ResponseHeader_AccessControlAllowOrigin :: string where
  "ResponseHeader_AccessControlAllowOrigin = ''access-control-allow-origin''"

definition ResponseHeader_AccessControlAllowHeaders :: string where
  "ResponseHeader_AccessControlAllowHeaders = ''access-control-allow-headers''"

definition ResponseHeader_AccessControlAllowMethods :: string where
  "ResponseHeader_AccessControlAllowMethods = ''access-control-allow-methods''"

definition ResponseHeader_AccessControlAllowCredentials :: string where
  "ResponseHeader_AccessControlAllowCredentials = ''access-control-allow-credentials''"

text \<open>\<open>status\<close> is a numeric enum member, so a number; \<open>data\<close> is \<open>any\<close>.\<close>

record ResponseKind =
  status :: int
  data :: jsval

section \<open>Lambda.ts\<close>

text \<open>
  An object used as a string map is the list of its properties; \<open>map_of\<close> reads one,
  \<open>None\<close> for \<open>undefined\<close>. A field that the platform types as an object or \<open>null\<close>
  is an option, \<open>None\<close> for \<open>null\<close>. Of the request context the code reads
  \<open>requestId\<close> and \<open>stage\<close> only.
\<close>

type_synonym StringMap = "(string \<times> string) list"

record APIGatewayEventRequestContext =
  requestId :: string
  stage :: string

record APIGatewayProxyEvent =
  body :: "string option"
  headers :: StringMap
  multiValueHeaders :: "(string \<times> string list) list"
  httpMethod :: string
  isBase64Encoded :: bool
  path :: string
  pathParameters :: "StringMap option"
  queryStringParameters :: "StringMap option"
  multiValueQueryStringParameters :: "(string \<times> string list) list option"
  stageVariables :: "StringMap option"
  requestContext :: APIGatewayEventRequestContext
  resource :: string

record LambdaProxyResponse =
  statusCode :: int
  headers :: StringMap
  body :: string

record LambdaRequest =
  httpMethod :: string
  pathParameters :: StringMap
  queryStringParameters :: StringMap
  body :: jsval
  path :: string
  headers :: StringMap
  isBase64Encoded :: bool
  multiValueHeaders :: "(string \<times> string list) list"
  multiValueQueryStringParameters :: "(string \<times> string list) list option"
  stageVariables :: "StringMap option"
  requestContext :: APIGatewayEventRequestContext
  resource :: string

definition createLambdaRequest :: "engine \<Rightarrow> APIGatewayProxyEvent \<Rightarrow> LambdaRequest" where
  "createLambdaRequest E event =
     (let body =
        (if map_of (APIGatewayProxyEvent.headers event) ''content-type'' = Some ''application/json''
         then (case APIGatewayProxyEvent.body event of
                 None \<Rightarrow> JUndefined
               | Some raw \<Rightarrow>
                   (if raw \<noteq> []
                    then (case JSON_parse E raw of Inl error \<Rightarrow> JUndefined | Inr parsed \<Rightarrow> parsed)
                    else JUndefined))
         else JUndefined)
      in \<lparr> LambdaRequest.httpMethod = APIGatewayProxyEvent.httpMethod event,
           pathParameters =
             (case APIGatewayProxyEvent.pathParameters event of None \<Rightarrow> [] | Some p \<Rightarrow> p),
           queryStringParameters =
             (case APIGatewayProxyEvent.queryStringParameters event of None \<Rightarrow> [] | Some q \<Rightarrow> q),
           body = body,
           path = APIGatewayProxyEvent.path event,
           headers = APIGatewayProxyEvent.headers event,
           isBase64Encoded = APIGatewayProxyEvent.isBase64Encoded event,
           multiValueHeaders = APIGatewayProxyEvent.multiValueHeaders event,
           multiValueQueryStringParameters =
             APIGatewayProxyEvent.multiValueQueryStringParameters event,
           stageVariables = APIGatewayProxyEvent.stageVariables event,
           requestContext = APIGatewayProxyEvent.requestContext event,
           resource = APIGatewayProxyEvent.resource event \<rparr>)"

text \<open>
  \<open>json.length\<close> throws when \<open>JSON.stringify\<close> returned \<open>undefined\<close>; otherwise it is
  the number of UTF-16 code units of the serialized text.
\<close>

definition createLambdaProxyResponse ::
  "engine \<Rightarrow> 'a ResponseKind_scheme \<Rightarrow> js_error + LambdaProxyResponse" where
  "createLambdaProxyResponse E response =
     (case JSON_stringify (data response) of
        None \<Rightarrow> Inl (TypeError_length E)
      | Some json \<Rightarrow>
          Inr \<lparr> statusCode = status response,
                headers =
                  [(ResponseHeader_ContentType, ''application/json''),
                   (ResponseHeader_ContentLength, decimal (js_length json)),
                   (ResponseHeader_AccessControlAllowOrigin, ''*''),
                   (ResponseHeader_AccessControlAllowHeaders, ''*''),
                   (ResponseHeader_AccessControlAllowMethods, ''*''),
                   (ResponseHeader_AccessControlAllowCredentials, ''*'')],
                body = json \<rparr>)"

text \<open>
  The object literal built in the \<open>catch\<close> block of \<open>restApiProxy\<close>: a response kind
  with one more field, \<open>type\<close>. What was caught is annotated as an \<open>Error\<close> but is
  whatever was thrown, and the literal reads its \<open>name\<close>, \<open>message\<close> and \<open>stack\<close>:
  \<^item> from \<open>null\<close> or \<open>undefined\<close> a read throws;
  \<^item> from an \<open>Error\<close> object it gives the field (an absent stack is \<open>undefined\<close>);
  \<^item> from a plain object it gives the property, \<open>undefined\<close> if there is none
    (\<open>Object.prototype\<close> has no member of these three names);
  \<^item> from a boolean, a number, a string or an array it gives \<open>undefined\<close>.
\<close>

datatype error_property = Name | Message | Stack

fun property_key :: "error_property \<Rightarrow> string" where
  "property_key Name = ''name''"
| "property_key Message = ''message''"
| "property_key Stack = ''stack''"

fun get_property :: "engine \<Rightarrow> thrown \<Rightarrow> error_property \<Rightarrow> js_error + jsval" where
  "get_property E (Error_object e) Name = Inr (JStr (name e))"
| "get_property E (Error_object e) Message = Inr (JStr (message e))"
| "get_property E (Error_object e) Stack =
     Inr (case stack e of None \<Rightarrow> JUndefined | Some s \<Rightarrow> JStr s)"
| "get_property E (Thrown_value JUndefined) p = Inl (TypeError_property E JUndefined (property_key p))"
| "get_property E (Thrown_value JNull) p = Inl (TypeError_property E JNull (property_key p))"
| "get_property E (Thrown_value (JObj props)) p =
     Inr (case map_of props (property_key p) of None \<Rightarrow> JUndefined | Some v \<Rightarrow> v)"
| "get_property E (Thrown_value v) p = Inr JUndefined"

text \<open>
  \<open>error.stack?.split('\n') ?? []\<close>, given what \<open>error.stack\<close> read: no lines for
  \<open>undefined\<close> or \<open>null\<close>, the lines of a string, and a throw for anything else, which
  has no \<open>split\<close> to call.
\<close>

fun stack_lines :: "engine \<Rightarrow> jsval \<Rightarrow> js_error + jsval list" where
  "stack_lines E JUndefined = Inr []"
| "stack_lines E JNull = Inr []"
| "stack_lines E (JStr s) = Inr (map JStr (split (CHR 0x0A) s))"
| "stack_lines E v = Inl (TypeError_split E)"

record InternalErrorResponse = ResponseKind +
  type :: string

definition internal_error_response :: "engine \<Rightarrow> thrown \<Rightarrow> js_error + InternalErrorResponse" where
  "internal_error_response E error =
     (case get_property E error Name of
        Inl e \<Rightarrow> Inl e
      | Inr error_name \<Rightarrow>
          (case get_property E error Message of
             Inl e \<Rightarrow> Inl e
           | Inr error_message \<Rightarrow>
               (case get_property E error Stack of
                  Inl e \<Rightarrow> Inl e
                | Inr error_stack \<Rightarrow>
                    (case stack_lines E error_stack of
                       Inl e \<Rightarrow> Inl e
                     | Inr lines \<Rightarrow>
                         Inr \<lparr> status = 500,
                               data = JObj [(''name'', error_name),
                                            (''message'', error_message),
                                            (''stack'', JArr lines)],
                               type = ''internal.error'' \<rparr>))))"

text \<open>
  A caller's handler is called with the container, the request (or raw event) and the
  invocation context, in the state \<open>'w\<close> of everything it can reach (the container's
  cache included); it throws or returns a promise, and leaves a new state.
\<close>

type_synonym ('c, 'r, 'x, 'o, 'w) handler_function =
  "'c \<Rightarrow> 'r \<Rightarrow> 'x \<Rightarrow> 'w \<Rightarrow> 'o call \<times> 'w"

record 'c LambdaWrapper =
  container :: 'c

definition new_LambdaWrapper :: "'c \<Rightarrow> 'c LambdaWrapper" where
  "new_LambdaWrapper c = \<lparr> container = c \<rparr>"

text \<open>
  The \<open>catch\<close> block of \<open>restApiProxy\<close>, as a function of what was caught: when the
  object literal throws, the function made by \<open>restApiProxy\<close> rejects with that error.
\<close>

definition restApiProxy_catch :: "engine \<Rightarrow> thrown \<Rightarrow> 'w \<Rightarrow> LambdaProxyResponse promise \<times> 'w" where
  "restApiProxy_catch E caught w =
     (let error = caught
      in case internal_error_response E error of
           Inl e \<Rightarrow> (Rejected (Error_object e), w)
         | Inr response \<Rightarrow> (async_result (createLambdaProxyResponse E response), w))"

definition restApiProxy ::
  "engine \<Rightarrow> 'c LambdaWrapper \<Rightarrow> ('c, LambdaRequest, 'x, ResponseKind, 'w) handler_function
     \<Rightarrow> APIGatewayProxyEvent \<Rightarrow> 'x \<Rightarrow> 'w \<Rightarrow> LambdaProxyResponse promise \<times> 'w" where
  "restApiProxy E W handler event context w =
     (let request = createLambdaRequest E event
      in case handler (container W) request context w of
           (r, w') \<Rightarrow>
             (case (case await r of
                      Inl caught \<Rightarrow> Inl caught
                    | Inr response \<Rightarrow>
                        (case createLambdaProxyResponse E response of
                           Inl e \<Rightarrow> Inl (Error_object e)
                         | Inr wire \<Rightarrow> Inr wire)) of
                Inr wire \<Rightarrow> (Resolved wire, w')
              | Inl caught \<Rightarrow> restApiProxy_catch E caught w'))"

text \<open>
  The hosting runtime hands the function whatever the invocation carries. An event of
  the declared type cannot make \<open>createLambdaRequest\<close> throw; the payload \<open>null\<close>
  (\<open>None\<close> here) does, at \<open>event.headers\<close>, before the handler is called, and the
  \<open>catch\<close> block gets that error.
\<close>

definition restApiProxy_received ::
  "engine \<Rightarrow> 'c LambdaWrapper \<Rightarrow> ('c, LambdaRequest, 'x, ResponseKind, 'w) handler_function
     \<Rightarrow> APIGatewayProxyEvent option \<Rightarrow> 'x \<Rightarrow> 'w \<Rightarrow> LambdaProxyResponse promise \<times> 'w" where
  "restApiProxy_received E W handler received context w =
     (case received of
        None \<Rightarrow> restApiProxy_catch E (Error_object (TypeError_property E JNull ''headers'')) w
      | Some event \<Rightarrow> restApiProxy E W handler event context w)"

definition handle ::
  "'c LambdaWrapper \<Rightarrow> ('c, 'ev, 'x, 'o, 'w) handler_function
     \<Rightarrow> 'ev \<Rightarrow> 'x \<Rightarrow> 'w \<Rightarrow> 'o promise \<times> 'w" where
  "handle W handler event context w =
     (case handler (container W) event context w of
        (Throws e, w') \<Rightarrow> (Rejected e, w')
      | (Returns p, w') \<Rightarrow> (p, w'))"

section \<open>Lambda.ts as in unnamed/part-001\<close>

text \<open>
  The second copy of the file: the request has other fields (its \<open>id\<close> is written
  \<open>id'\<close> here), the body is parsed whatever the content type and defaults to the empty
  object, and the wrapper can hold an error handler. \<open>createLambdaProxyResponse\<close> is the
  same text in both copies.
\<close>

record LambdaRequest_part001 =
  id' :: string
  stage :: string
  "method" :: string
  path :: string
  headers :: StringMap
  params :: StringMap
  query :: StringMap
  body :: jsval

definition createLambdaRequest_part001 ::
  "engine \<Rightarrow> APIGatewayProxyEvent \<Rightarrow> LambdaRequest_part001" where
  "createLambdaRequest_part001 E event =
     (let body =
        (case APIGatewayProxyEvent.body event of
           None \<Rightarrow> JObj []
         | Some raw \<Rightarrow>
             (if raw \<noteq> []
              then (case JSON_parse E raw of Inl error \<Rightarrow> JObj [] | Inr parsed \<Rightarrow> parsed)
              else JObj []))
      in \<lparr> id' = requestId (APIGatewayProxyEvent.requestContext event),
           stage = APIGatewayEventRequestContext.stage (APIGatewayProxyEvent.requestContext event),
           method = APIGatewayProxyEvent.httpMethod event,
           path = APIGatewayProxyEvent.path event,
           headers = APIGatewayProxyEvent.headers event,
           params =
             (case APIGatewayProxyEvent.pathParameters event of None \<Rightarrow> [] | Some p \<Rightarrow> p),
           query =
             (case APIGatewayProxyEvent.queryStringParameters event of None \<Rightarrow> [] | Some q \<Rightarrow> q),
           body = body \<rparr>)"

text \<open>
  The error handler is an asynchronous function that \<open>handleError\<close> calls and whose
  promise nobody looks at, \<open>handleError\<close> being itself called without \<open>await\<close>: nothing
  the error handler throws reaches the caller, and the caller does not wait for it. Its
  effect here is what it does inside the call, up to the point where it first suspends
  or throws; what it does after that happens outside the invocation.
\<close>

record ('c, 'w) LambdaWrapper_part001 =
  container :: 'c
  errorHandler :: "(thrown \<Rightarrow> 'w \<Rightarrow> 'w) option"

text \<open>The constructor leaves \<open>errorHandler\<close> unset.\<close>

definition new_LambdaWrapper_part001 :: "'c \<Rightarrow> ('c, 'w) LambdaWrapper_part001" where
  "new_LambdaWrapper_part001 c = \<lparr> container = c, errorHandler = None \<rparr>"

definition registerErrorHandler ::
  "(thrown \<Rightarrow> 'w \<Rightarrow> 'w) \<Rightarrow> ('c, 'w) LambdaWrapper_part001 \<Rightarrow> ('c, 'w) LambdaWrapper_part001" where
  "registerErrorHandler handler W = W\<lparr>errorHandler := Some handler\<rparr>"

definition handleError :: "('c, 'w) LambdaWrapper_part001 \<Rightarrow> thrown \<Rightarrow> 'w \<Rightarrow> 'w" where
  "handleError W error w =
     (case errorHandler W of None \<Rightarrow> w | Some h \<Rightarrow> h error w)"

text \<open>
  The \<open>catch\<close> block of \<open>restApiProxy\<close>: the object literal is built first, so when it
  throws the error handler is not called.
\<close>

definition restApiProxy_catch_part001 ::
  "engine \<Rightarrow> ('c, 'w) LambdaWrapper_part001 \<Rightarrow> thrown \<Rightarrow> 'w \<Rightarrow> LambdaProxyResponse promise \<times> 'w" where
  "restApiProxy_catch_part001 E W caught w =
     (let error = caught
      in case internal_error_response E error of
           Inl e \<Rightarrow> (Rejected (Error_object e), w)
         | Inr response \<Rightarrow>
             (let w' = handleError W error w
              in (async_result (createLambdaProxyResponse E response), w')))"

definition restApiProxy_part001 ::
  "engine \<Rightarrow> ('c, 'w) LambdaWrapper_part001
     \<Rightarrow> ('c, LambdaRequest_part001, 'x, ResponseKind, 'w) handler_function
     \<Rightarrow> APIGatewayProxyEvent \<Rightarrow> 'x \<Rightarrow> 'w \<Rightarrow> LambdaProxyResponse promise \<times> 'w" where
  "restApiProxy_part001 E W handler event context w =
     (let request = createLambdaRequest_part001 E event
      in case handler (LambdaWrapper_part001.container W) request context w of
           (r, w') \<Rightarrow>
             (case (case await r of
                      Inl caught \<Rightarrow> Inl caught
                    | Inr response \<Rightarrow>
                        (case createLambdaProxyResponse E response of
                           Inl e \<Rightarrow> Inl (Error_object e)
                         | Inr wire \<Rightarrow> Inr wire)) of
                Inr wire \<Rightarrow> (Resolved wire, w')
              | Inl caught \<Rightarrow> restApiProxy_catch_part001 E W caught w'))"

text \<open>
  On the payload \<open>null\<close> this copy of \<open>createLambdaRequest\<close> catches the throw of
  \<open>typeof event.body\<close> with the parse errors, and throws at \<open>event.requestContext\<close>.
\<close>

definition restApiProxy_received_part001 ::
  "engine \<Rightarrow> ('c, 'w) LambdaWrapper_part001
     \<Rightarrow> ('c, LambdaRequest_part001, 'x, ResponseKind, 'w) handler_function
     \<Rightarrow> APIGatewayProxyEvent option \<Rightarrow> 'x \<Rightarrow> 'w \<Rightarrow> LambdaProxyResponse promise \<times> 'w" where
  "restApiProxy_received_part001 E W handler received context w =
     (case received of
        None \<Rightarrow>
          restApiProxy_catch_part001 E W
            (Error_object (TypeError_property E JNull ''requestContext'')) w
      | Some event \<Rightarrow> restApiProxy_part001 E W handler event context w)"

text \<open>
  \<open>handle\<close> returns the handler's promise from inside \<open>try\<close> without awaiting it:
  the \<open>catch\<close> block runs for a synchronous throw only, and a promise that rejects is
  handed to the caller as it is.
\<close>

definition handle_part001 ::
  "('c, 'w) LambdaWrapper_part001 \<Rightarrow> ('c, 'ev, 'x, 'o, 'w) handler_function
     \<Rightarrow> 'ev \<Rightarrow> 'x \<Rightarrow> 'w \<Rightarrow> 'o promise \<times> 'w" where
  "handle_part001 W handler event context w =
     (case handler (LambdaWrapper_part001.container W) event context w of
        (Throws caught, w') \<Rightarrow>
          (let error = caught; w'' = handleError W error w' in (Rejected error, w''))
      | (Returns p, w') \<Rightarrow> (p, w'))"

section \<open>Sample inputs\<close>

text \<open>
  An engine for the worked examples: \<open>JSON.parse\<close> is given on the documents the
  examples use (nothing is said about any other document); an error's stack is its
  name and message followed by one frame; the texts of the engine's own errors are
  those of one Node.js release.
\<close>

definition JSON_parse_known :: "(string \<times> (js_error + jsval)) list" where
  \<open>JSON_parse_known =
     [(''{not valid'',
         Inl \<lparr> name = ''SyntaxError'',
               message = ''Unexpected token n in JSON at position 1'',
               error' = None, stack = None \<rparr>),
      (''{"name":"report"}'', Inr (JObj [(''name'', JStr ''report'')]))]\<close>

definition sample_TypeError :: "string \<Rightarrow> js_error" where
  "sample_TypeError msg =
     \<lparr> name = ''TypeError'', message = msg, error' = None,
       stack = Some (''TypeError: '' @ msg @ [CHR 0x0A] @ ''    at /var/task/src/Lambda.js:1:1'') \<rparr>"

definition sample_engine :: engine where
  "sample_engine =
     \<lparr> JSON_parse = (\<lambda>s. the (map_of JSON_parse_known s)),
       stack_trace =
         (\<lambda>nm msg. Some (nm @ '': '' @ msg @ [CHR 0x0A] @ ''    at /var/task/src/Container.js:1:1'')),
       TypeError_length =
         sample_TypeError ''Cannot read properties of undefined (reading 'length')'',
       TypeError_property =
         (\<lambda>v p. sample_TypeError
            (''Cannot read properties of '' @ (if v = JNull then ''null'' else ''undefined'')
             @ '' (reading '' @ [CHR 0x27] @ p @ [CHR 0x27] @ '')'')),
       TypeError_split = sample_TypeError ''error.stack?.split is not a function'' \<rparr>"

definition sample_event :: APIGatewayProxyEvent where
  "sample_event =
     \<lparr> APIGatewayProxyEvent.body = None, headers = [], multiValueHeaders = [],
       httpMethod = ''GET'', isBase64Encoded = False, path = ''/x'',
       pathParameters = None, queryStringParameters = None,
       multiValueQueryStringParameters = None, stageVariables = None,
       requestContext = \<lparr> requestId = ''r-1'', stage = ''dev'' \<rparr>, resource = ''/x'' \<rparr>"

text \<open>
  The instances of the examples: the clients made by \<open>new S3()\<close>, numbered as they are
  made, and the members of \<open>Object.prototype\<close>, by name.
\<close>

datatype sample_instance = S3 nat | Object_prototype string

text \<open>
  Three initiators. The first does nothing and resolves to \<open>undefined\<close>. The second is
  \<open>async () => new S3()\<close>: the state beside the cache counts the clients made, and each
  call returns a new one. The third counts in the same place and resolves to
  \<open>undefined\<close>.
\<close>

definition undefined_initiator :: "(sample_instance, nat) ContainerServiceInitiator" where
  "undefined_initiator st = (Returns (Resolved None), st)"

definition fresh_initiator :: "(sample_instance, nat) ContainerServiceInitiator" where
  "fresh_initiator st =
     (Returns (Resolved (Some (S3 (world st)))), st\<lparr>world := Suc (world st)\<rparr>)"

definition counting_initiator :: "(sample_instance, nat) ContainerServiceInitiator" where
  "counting_initiator st = (Returns (Resolved None), st\<lparr>world := Suc (world st)\<rparr>)"

text \<open>
  A container whose initiator map is an object without prototype (made with
  \<open>Object.create(null)\<close>) holding the three initiators: any other name reads as
  \<open>undefined\<close> from it. Its state as the constructor leaves it.
\<close>

definition sample_container :: "(sample_instance, nat, unit) Container" where
  "sample_container =
     \<lparr> environment = (),
       initiator = (\<lambda>k. if k = ''aws.s3'' then Some fresh_initiator
                        else if k = ''void'' then Some undefined_initiator
                        else if k = ''probe'' then Some counting_initiator
                        else None) \<rparr>"

definition new_state :: "(sample_instance, nat) Container_state" where
  "new_state = new_Container_state Object_prototype 0"

text \<open>
  Four handlers. An asynchronous one that throws \<open>Error("boom")\<close> (its promise
  rejects), a plain function that throws the same error before returning a promise, an
  asynchronous one that throws \<open>null\<close>, and an asynchronous one that awaits the service
  \<open>k\<close> of the container and then answers \<open>{status: 200, data: {ok: true}}\<close>.
\<close>

definition boom :: thrown where
  "boom = Error_object
            \<lparr> name = ''Error'', message = ''boom'', error' = None,
              stack = Some (''Error: boom'' @ [CHR 0x0A] @ ''    at handler (index.js:3:9)'') \<rparr>"

definition rejecting_handler :: "('c, 'r, 'x, 'o, 'w) handler_function" where
  "rejecting_handler c request context w = (Returns (Rejected boom), w)"

definition throwing_handler :: "('c, 'r, 'x, 'o, 'w) handler_function" where
  "throwing_handler c request context w = (Throws boom, w)"

definition null_rejecting_handler :: "('c, 'r, 'x, 'o, 'w) handler_function" where
  "null_rejecting_handler c request context w = (Returns (Rejected (Thrown_value JNull)), w)"

definition service_handler ::
  "string \<Rightarrow> ((sample_instance, nat, unit) Container, 'r, 'x, ResponseKind,
               (sample_instance, nat) Container_state) handler_function" where
  "service_handler k c request context w =
     (case service sample_engine c k w of
        (Rejected e, w') \<Rightarrow> (Returns (Rejected e), w')
      | (Resolved instance, w') \<Rightarrow>
          (Returns (Resolved \<lparr> status = 200, data = JObj [(''ok'', JBool True)] \<rparr>), w'))"

text \<open>An error handler that keeps what it is told of, latest last.\<close>

definition logging_wrapper :: "('c \<Rightarrow> ('c, thrown list) LambdaWrapper_part001)" where
  "logging_wrapper c = registerErrorHandler (\<lambda>e log. log @ [e]) (new_LambdaWrapper_part001 c)"

text \<open>\<open>n\<close> calls of \<open>service\<close> for one name, one after the other.\<close>

primrec service_times ::
  "nat \<Rightarrow> engine \<Rightarrow> ('s, 'w, 'e) Container \<Rightarrow> string \<Rightarrow> ('s, 'w) Container_state
     \<Rightarrow> ('s, 'w) Container_state" where
  "service_times 0 E C k st = st"
| "service_times (Suc n) E C k st = service_times n E C k (snd (service E C k st))"

section \<open>Theorems\<close>

subsection \<open>The container: a name without initiator\<close>

text \<open>
  A name that reads as \<open>undefined\<close> both in the cache and in the initiator map makes
  \<open>service\<close> reject with the missing-initiator error; the container state (cache and
  invocation record) is returned as it was, so no initiator ran. The error's \<open>name\<close> is
  the fixed identifier \<open>ContainerMissingServiceInitiatorError\<close>, whatever the service,
  and is a field apart from the \<open>message\<close>, which quotes the service name.
\<close>

lemma service_missing_initiator:
  assumes "cache st k = None" and "initiator C k = None"
  shows \<open>service E C k st = (Rejected (Error_object (ContainerMissingServiceError E k)), st)
    \<and> name (ContainerMissingServiceError E k) = ''ContainerMissingServiceInitiatorError''
    \<and> message (ContainerMissingServiceError E k) =
        ''The service "'' @ k @ ''" has no initiator provided. Please provide an initiator for this service before calling it.''\<close>
  using assms
  by (simp add: service_def ContainerMissingServiceError_def NameAwareError_def
      ContainerMissingServiceErrorName_def Let_def)

lemma service_missing_initiator_example:
  \<open>service sample_engine sample_container ''mailer'' new_state
       = (Rejected (Error_object (ContainerMissingServiceError sample_engine ''mailer'')), new_state)
   \<and> ContainerMissingServiceError sample_engine ''mailer''
       = \<lparr> name = ''ContainerMissingServiceInitiatorError'',
           message = ''The service "mailer" has no initiator provided. Please provide an initiator for this service before calling it.'',
           error' = Some ''The service "mailer" has no initiator provided. Please provide an initiator for this service before calling it.'',
           stack = Some (''ContainerMissingServiceInitiatorError: The service "mailer" has no initiator provided. Please provide an initiator for this service before calling it.''
                         @ [CHR 0x0A] @ ''    at /var/task/src/Container.js:1:1'') \<rparr>\<close>
  by (simp add: service_def sample_container_def new_state_def new_Container_state_def
      empty_object_def Object_prototype_names_def ContainerMissingServiceError_def
      NameAwareError_def ContainerMissingServiceErrorName_def Let_def sample_engine_def)

text \<open>
  A name that \<open>Object.prototype\<close> has reads as defined from the cache of a container
  just made, whatever the initiator map: \<open>service\<close> resolves to the inherited member as
  if it had been cached.
\<close>

lemma service_inherited_name:
  assumes "k \<in> set Object_prototype_names"
  shows "service E C k (new_Container_state inherited w)
           = (Resolved (Some (inherited k)), new_Container_state inherited w)"
  using assms by (simp add: service_def new_Container_state_def empty_object_def)

text \<open>
  C2, at the input where the code departs from it. The sample container has no
  initiator for \<open>toString\<close> and, being just made, has cached nothing; \<open>service\<close> does
  not reject: it resolves to \<open>Object.prototype.toString\<close> and leaves the state as it
  was.
\<close>

theorem service_toString_not_rejected:
  "initiator sample_container ''toString'' = None
   \<and> invoked new_state = []
   \<and> service sample_engine sample_container ''toString'' new_state
       = (Resolved (Some (Object_prototype ''toString'')), new_state)"
  by (simp add: service_def sample_container_def new_state_def new_Container_state_def
      empty_object_def Object_prototype_names_def)

subsection \<open>The container: memoized construction\<close>





lemma new_state_reads:
  "cache new_state ''aws.s3'' = None" "cache new_state ''void'' = None"
  "cache new_state ''probe'' = None" "cache new_state ''mailer'' = None"
  "invoked new_state = []" "world new_state = 0"
  by (simp_all add: new_state_def new_Container_state_def empty_object_def
      Object_prototype_names_def)



text \<open>
  C10. Let the initiator of a name always resolve to \<open>undefined\<close>, and let the name read
  as \<open>undefined\<close> in the cache. Then a call of \<open>service\<close> resolves to \<open>undefined\<close>
  and its state is the one the initiator leaves, with \<open>undefined\<close> stored under the
  name; \<open>n\<close> calls one after the other leave the state of \<open>n\<close> runs of the initiator,
  each in the state its predecessor left; and the name still reads as \<open>undefined\<close> in the
  cache, so the next call runs the initiator again.
\<close>

theorem service_undefined_not_cached:
  assumes "initiator C k = Some init"
    and "\<forall>s. await (fst (init s)) = Inr None"
    and "cache st k = None"
  shows "service E C k st =
           (Resolved None,
            (let st' = snd (init (st\<lparr>invoked := invoked st @ [k]\<rparr>))
             in st'\<lparr>cache := (cache st')(k := None)\<rparr>))
       \<and> service_times n E C k st =
           ((\<lambda>s. let s' = snd (init (s\<lparr>invoked := invoked s @ [k]\<rparr>))
                 in s'\<lparr>cache := (cache s')(k := None)\<rparr>) ^^ n) st
       \<and> cache (service_times n E C k st) k = None"
proof -
  define run where
    "run = (\<lambda>s. let s' = snd (init (s\<lparr>invoked := invoked s @ [k]\<rparr>))
                in s'\<lparr>cache := (cache s')(k := None)\<rparr>)"
  have step: "service E C k s = (Resolved None, run s)" if "cache s k = None" for s
  proof -
    obtain r s' where i: "init (s\<lparr>invoked := invoked s @ [k]\<rparr>) = (r, s')"
      by (cases "init (s\<lparr>invoked := invoked s @ [k]\<rparr>)")
    have "await r = Inr None" using assms(2) i by (metis fst_conv)
    with that assms(1) i show ?thesis by (simp add: service_def run_def Let_def)
  qed
  have after: "cache (run s) k = None" for s
    by (simp add: run_def Let_def)
  have many: "service_times n E C k s = (run ^^ n) s \<and> cache (service_times n E C k s) k = None"
    if "cache s k = None" for s
    using that
  proof (induction n arbitrary: s)
    case 0
    then show ?case by simp
  next
    case (Suc n)
    have s1: "snd (service E C k s) = run s"
      using step [OF Suc.prems] by simp
    have ih: "service_times n E C k (run s) = (run ^^ n) (run s)
        \<and> cache (service_times n E C k (run s)) k = None"
      using Suc.IH [OF after] .
    have "(run ^^ n) (run s) = (run ^^ Suc n) s"
      by (simp add: funpow_swap1)
    with ih s1 after [of "(run ^^ n) s"] show ?case by simp
  qed
  from step [OF assms(3)] many [OF assms(3)] show ?thesis
    unfolding run_def by blast
qed

theorem service_undefined_not_cached_witness:
  "initiator sample_container ''probe'' = Some counting_initiator
   \<and> (\<forall>s. await (fst (counting_initiator s)) = Inr None)
   \<and> cache new_state ''probe'' = None
   \<and> service sample_engine sample_container ''probe'' new_state
       = (Resolved None,
          new_state\<lparr>cache := (cache new_state)(''probe'' := None),
                     invoked := [''probe''], world := 1\<rparr>)
   \<and> service_times 3 sample_engine sample_container ''probe'' new_state
       = new_state\<lparr>cache := (cache new_state)(''probe'' := None),
                    invoked := [''probe'', ''probe'', ''probe''], world := 3\<rparr>
   \<and> cache (service_times 3 sample_engine sample_container ''probe'' new_state) ''probe'' = None"
proof -
  have p: "initiator sample_container ''probe'' = Some counting_initiator"
    by (simp add: sample_container_def)
  have u: "\<forall>s. await (fst (counting_initiator s)) = Inr None"
    by (simp add: counting_initiator_def)
  have c: "cache new_state ''probe'' = None"
    by (rule new_state_reads)
  show ?thesis
    using p u c service_undefined_not_cached [OF p u c, of sample_engine 3]
    by (simp add: numeral_3_eq_3 counting_initiator_def Let_def new_state_reads
        del: service_times.simps)
qed

subsection \<open>Decoding the event\<close>

text \<open>
  C5, as amended. \<open>createLambdaRequest\<close> of Lambda.ts leaves the body \<open>undefined\<close>
  whenever the \<open>content-type\<close> header is not \<open>application/json\<close>, whatever the raw
  body; when the header is \<open>application/json\<close> and the raw body is a non-empty string
  that parses, the body is the parsed value. The copy of \<open>createLambdaRequest\<close> in
  \<open>unnamed/part_001\<close> has no test of the content type: whenever the raw body is a
  non-empty string that parses, the body is the parsed value.
\<close>

theorem createLambdaRequest_json_only:
  "(map_of (APIGatewayProxyEvent.headers event) ''content-type'' \<noteq> Some ''application/json''
      \<longrightarrow> LambdaRequest.body (createLambdaRequest E event) = JUndefined)
   \<and> (map_of (APIGatewayProxyEvent.headers event) ''content-type'' = Some ''application/json''
        \<and> APIGatewayProxyEvent.body event = Some raw \<and> raw \<noteq> [] \<and> JSON_parse E raw = Inr parsed
      \<longrightarrow> LambdaRequest.body (createLambdaRequest E event) = parsed)
   \<and> (APIGatewayProxyEvent.body event = Some raw \<and> raw \<noteq> [] \<and> JSON_parse E raw = Inr parsed
      \<longrightarrow> LambdaRequest_part001.body (createLambdaRequest_part001 E event) = parsed)"
  by (simp add: createLambdaRequest_def createLambdaRequest_part001_def)

theorem createLambdaRequest_json_only_witness:
  \<open>map_of (APIGatewayProxyEvent.headers
       (sample_event\<lparr>APIGatewayProxyEvent.body := Some ''{"name":"report"}'',
                      APIGatewayProxyEvent.headers := [(''content-type'', ''text/plain'')]\<rparr>))
       ''content-type'' \<noteq> Some ''application/json''
   \<and> APIGatewayProxyEvent.body
       (sample_event\<lparr>APIGatewayProxyEvent.body := Some ''{"name":"report"}'',
                      APIGatewayProxyEvent.headers := [(''content-type'', ''text/plain'')]\<rparr>)
       = Some ''{"name":"report"}''
   \<and> ''{"name":"report"}'' \<noteq> []
   \<and> JSON_parse sample_engine ''{"name":"report"}'' = Inr (JObj [(''name'', JStr ''report'')])
   \<and> LambdaRequest.body (createLambdaRequest sample_engine
       (sample_event\<lparr>APIGatewayProxyEvent.body := Some ''{"name":"report"}'',
                      APIGatewayProxyEvent.headers := [(''content-type'', ''text/plain'')]\<rparr>))
       = JUndefined
   \<and> LambdaRequest_part001.body (createLambdaRequest_part001 sample_engine
       (sample_event\<lparr>APIGatewayProxyEvent.body := Some ''{"name":"report"}'',
                      APIGatewayProxyEvent.headers := [(''content-type'', ''text/plain'')]\<rparr>))
       = JObj [(''name'', JStr ''report'')]
   \<and> map_of (APIGatewayProxyEvent.headers
       (sample_event\<lparr>APIGatewayProxyEvent.body := Some ''{"name":"report"}'',
                      APIGatewayProxyEvent.headers := [(''content-type'', ''application/json'')]\<rparr>))
       ''content-type'' = Some ''application/json''
   \<and> LambdaRequest.body (createLambdaRequest sample_engine
       (sample_event\<lparr>APIGatewayProxyEvent.body := Some ''{"name":"report"}'',
                      APIGatewayProxyEvent.headers := [(''content-type'', ''application/json'')]\<rparr>))
       = JObj [(''name'', JStr ''report'')]\<close>
proof -
  have p: \<open>JSON_parse sample_engine ''{"name":"report"}'' = Inr (JObj [(''name'', JStr ''report'')])\<close>
    by (simp add: sample_engine_def JSON_parse_known_def)
  show ?thesis
    using p
      createLambdaRequest_json_only [where E = sample_engine and raw = \<open>''{"name":"report"}''\<close>
        and parsed = "JObj [(''name'', JStr ''report'')]"
        and event = \<open>sample_event\<lparr>APIGatewayProxyEvent.body := Some ''{"name":"report"}'',
                      APIGatewayProxyEvent.headers := [(''content-type'', ''text/plain'')]\<rparr>\<close>]
      createLambdaRequest_json_only [where E = sample_engine and raw = \<open>''{"name":"report"}''\<close>
        and parsed = "JObj [(''name'', JStr ''report'')]"
        and event = \<open>sample_event\<lparr>APIGatewayProxyEvent.body := Some ''{"name":"report"}'',
                      APIGatewayProxyEvent.headers := [(''content-type'', ''application/json'')]\<rparr>\<close>]
    by (simp add: sample_event_def)
qed

text \<open>
  C5 as stated fails on the copy in \<open>unnamed/part_001\<close>: for an event with the header
  \<open>content-type: text/plain\<close> whose raw body is valid JSON, the request's body is the
  parsed object and not the default, the empty object.
\<close>

theorem createLambdaRequest_json_only_counterexample:
  \<open>map_of [(''content-type'', ''text/plain'')] ''content-type'' \<noteq> Some ''application/json''
   \<and> JSON_parse sample_engine ''{"name":"report"}'' = Inr (JObj [(''name'', JStr ''report'')])
   \<and> LambdaRequest_part001.body (createLambdaRequest_part001 sample_engine
       (sample_event\<lparr>APIGatewayProxyEvent.body := Some ''{"name":"report"}'',
                      APIGatewayProxyEvent.headers := [(''content-type'', ''text/plain'')]\<rparr>))
     = JObj [(''name'', JStr ''report'')]
   \<and> JObj [(''name'', JStr ''report'')] \<noteq> JObj []\<close>
  by (simp add: createLambdaRequest_part001_def sample_engine_def JSON_parse_known_def)

text \<open>
  C7. For an event with the header \<open>content-type: application/json\<close> whose raw body is a
  non-empty string on which \<open>JSON.parse\<close> throws, \<open>createLambdaRequest\<close> returns a
  request (the function has no failing path) whose body is \<open>undefined\<close>; the copy in
  \<open>unnamed/part_001\<close> returns the empty object.
\<close>

theorem createLambdaRequest_malformed_json:
  assumes "map_of (APIGatewayProxyEvent.headers event) ''content-type'' = Some ''application/json''"
    and "APIGatewayProxyEvent.body event = Some raw" and "raw \<noteq> []"
    and "JSON_parse E raw = Inl e"
  shows "LambdaRequest.body (createLambdaRequest E event) = JUndefined
       \<and> LambdaRequest_part001.body (createLambdaRequest_part001 E event) = JObj []"
  using assms by (simp add: createLambdaRequest_def createLambdaRequest_part001_def)

theorem createLambdaRequest_malformed_json_witness:
  \<open>map_of (APIGatewayProxyEvent.headers
       (sample_event\<lparr>APIGatewayProxyEvent.body := Some ''{not valid'',
                      APIGatewayProxyEvent.headers := [(''content-type'', ''application/json'')]\<rparr>))
       ''content-type'' = Some ''application/json''
   \<and> APIGatewayProxyEvent.body
       (sample_event\<lparr>APIGatewayProxyEvent.body := Some ''{not valid'',
                      APIGatewayProxyEvent.headers := [(''content-type'', ''application/json'')]\<rparr>)
       = Some ''{not valid''
   \<and> ''{not valid'' \<noteq> []
   \<and> JSON_parse sample_engine ''{not valid''
       = Inl \<lparr> name = ''SyntaxError'', message = ''Unexpected token n in JSON at position 1'',
               error' = None, stack = None \<rparr>
   \<and> LambdaRequest.body (createLambdaRequest sample_engine
       (sample_event\<lparr>APIGatewayProxyEvent.body := Some ''{not valid'',
                      APIGatewayProxyEvent.headers := [(''content-type'', ''application/json'')]\<rparr>))
       = JUndefined
   \<and> LambdaRequest_part001.body (createLambdaRequest_part001 sample_engine
       (sample_event\<lparr>APIGatewayProxyEvent.body := Some ''{not valid'',
                      APIGatewayProxyEvent.headers := [(''content-type'', ''application/json'')]\<rparr>))
       = JObj []\<close>
proof -
  have p: \<open>JSON_parse sample_engine ''{not valid''
       = Inl \<lparr> name = ''SyntaxError'', message = ''Unexpected token n in JSON at position 1'',
               error' = None, stack = None \<rparr>\<close>
    by (simp add: sample_engine_def JSON_parse_known_def)
  show ?thesis
    using p
      createLambdaRequest_malformed_json [where E = sample_engine and raw = \<open>''{not valid''\<close>
        and event = \<open>sample_event\<lparr>APIGatewayProxyEvent.body := Some ''{not valid'',
                      APIGatewayProxyEvent.headers := [(''content-type'', ''application/json'')]\<rparr>\<close>]
    by (simp add: sample_event_def)
qed

text \<open>
  C8. When the event's \<open>pathParameters\<close> is \<open>null\<close> the request's path parameters are the
  empty mapping, and when its \<open>queryStringParameters\<close> is \<open>null\<close> the request's query
  parameters are the empty mapping, in both copies of \<open>createLambdaRequest\<close>. (The
  request's fields are mappings by type: they have no \<open>null\<close>.)
\<close>

theorem createLambdaRequest_null_parameters:
  "(APIGatewayProxyEvent.pathParameters event = None
      \<longrightarrow> LambdaRequest.pathParameters (createLambdaRequest E event) = []
          \<and> params (createLambdaRequest_part001 E event) = [])
   \<and> (APIGatewayProxyEvent.queryStringParameters event = None
      \<longrightarrow> LambdaRequest.queryStringParameters (createLambdaRequest E event) = []
          \<and> query (createLambdaRequest_part001 E event) = [])"
  by (simp add: createLambdaRequest_def createLambdaRequest_part001_def)

theorem createLambdaRequest_null_parameters_witness:
  "APIGatewayProxyEvent.pathParameters sample_event = None
   \<and> APIGatewayProxyEvent.queryStringParameters sample_event = None
   \<and> LambdaRequest.pathParameters (createLambdaRequest sample_engine sample_event) = []
   \<and> params (createLambdaRequest_part001 sample_engine sample_event) = []
   \<and> LambdaRequest.queryStringParameters (createLambdaRequest sample_engine sample_event) = []
   \<and> query (createLambdaRequest_part001 sample_engine sample_event) = []"
  using createLambdaRequest_null_parameters [of sample_event sample_engine]
  by (simp add: sample_event_def)

subsection \<open>Encoding the response\<close>

lemma js_length_ascii:
  assumes "\<forall>c \<in> set s. (of_char c :: nat) < 128"
  shows "js_length s = length s"
  using assms by (induction s) (simp_all add: js_length_def Let_def)

text \<open>
  Whenever the data serializes to a text, the response carries the status, the text as
  body, and the six headers, the content length being the decimal number of UTF-16 code
  units of the text.
\<close>

lemma createLambdaProxyResponse_headers:
  assumes "JSON_stringify (data response) = Some json"
  shows "createLambdaProxyResponse E response =
     Inr \<lparr> statusCode = status response,
           headers = [(''content-type'', ''application/json''),
                      (''content-length'', decimal (js_length json)),
                      (''access-control-allow-origin'', ''*''),
                      (''access-control-allow-headers'', ''*''),
                      (''access-control-allow-methods'', ''*''),
                      (''access-control-allow-credentials'', ''*'')],
           body = json \<rparr>"
  using assms
  by (simp add: createLambdaProxyResponse_def ResponseHeader_ContentType_def
      ResponseHeader_ContentLength_def ResponseHeader_AccessControlAllowOrigin_def
      ResponseHeader_AccessControlAllowHeaders_def ResponseHeader_AccessControlAllowMethods_def
      ResponseHeader_AccessControlAllowCredentials_def)

text \<open>With \<open>data: undefined\<close> there is no response: reading \<open>json.length\<close> throws.\<close>

lemma createLambdaProxyResponse_undefined_data:
  "createLambdaProxyResponse E \<lparr> status = 204, data = JUndefined \<rparr> = Inl (TypeError_length E)"
  by (simp add: createLambdaProxyResponse_def)

text \<open>
  C6, at the input where the code departs from it. The response \<open>{status: 200, data: "\<dots>"}\<close>
  whose data is the one-character string U+00E9 (two bytes in UTF-8) serializes to a
  body of four bytes, and the \<open>content-length\<close> header says 3.
\<close>

theorem createLambdaProxyResponse_content_length_not_bytes:
  "createLambdaProxyResponse sample_engine \<lparr> status = 200, data = JStr [CHR 0xC3, CHR 0xA9] \<rparr> =
     Inr \<lparr> statusCode = 200,
           headers = [(''content-type'', ''application/json''),
                      (''content-length'', ''3''),
                      (''access-control-allow-origin'', ''*''),
                      (''access-control-allow-headers'', ''*''),
                      (''access-control-allow-methods'', ''*''),
                      (''access-control-allow-credentials'', ''*'')],
           body = [CHR 0x22, CHR 0xC3, CHR 0xA9, CHR 0x22] \<rparr>
   \<and> length [CHR 0x22, CHR 0xC3, CHR 0xA9, CHR 0x22] = 4"
  by (simp add: createLambdaProxyResponse_def QuoteJSONString_def QuoteJSONChar_def
      js_length_def decimal.simps digit_char_def ResponseHeader_ContentType_def
      ResponseHeader_ContentLength_def ResponseHeader_AccessControlAllowOrigin_def
      ResponseHeader_AccessControlAllowHeaders_def ResponseHeader_AccessControlAllowMethods_def
      ResponseHeader_AccessControlAllowCredentials_def)

subsection \<open>The wrapper\<close>

lemma stringify_JStr:
  "(\<lambda>r. case r of None \<Rightarrow> ''null'' | Some t \<Rightarrow> t) \<circ> (JSON_stringify \<circ> JStr) = QuoteJSONString"
  by (rule ext) simp

lemma QuoteJSONString_keys:
  \<open>QuoteJSONString ''name'' = ''"name"''\<close>
  \<open>QuoteJSONString ''message'' = ''"message"''\<close>
  \<open>QuoteJSONString ''stack'' = ''"stack"''\<close>
  by (simp_all add: QuoteJSONString_def QuoteJSONChar_def)

text \<open>
  What the \<open>catch\<close> block makes of an \<open>Error\<close> object: the response of status 500
  whose body is the JSON object with the error's \<open>name\<close>, its \<open>message\<close> and the lines
  of its \<open>stack\<close>.
\<close>

lemma internal_error_response_Error_object:
  "internal_error_response E (Error_object e) =
     Inr \<lparr> status = 500,
           data = JObj [(''name'', JStr (name e)), (''message'', JStr (message e)),
                        (''stack'', JArr (map JStr (case stack e of None \<Rightarrow> []
                                                   | Some s \<Rightarrow> split (CHR 0x0A) s)))],
           type = ''internal.error'' \<rparr>"
  by (simp add: internal_error_response_def split: option.splits)

lemma createLambdaProxyResponse_Error_object:
  \<open>\<exists>wire. (\<exists>response. internal_error_response E (Error_object e) = Inr response
                \<and> createLambdaProxyResponse E response = Inr wire)
     \<and> statusCode wire = 500
     \<and> LambdaProxyResponse.body wire =
         ''{"name":'' @ QuoteJSONString (name e)
           @ '',"message":'' @ QuoteJSONString (message e)
           @ '',"stack":['' @ join '',''
               (map QuoteJSONString (case stack e of None \<Rightarrow> [] | Some s \<Rightarrow> split (CHR 0x0A) s))
           @ '']}''\<close>
  by (simp add: internal_error_response_Error_object createLambdaProxyResponse_def
      stringify_JStr QuoteJSONString_keys)

lemma restApiProxy_catch_Error_object:
  \<open>\<exists>wire. restApiProxy_catch E (Error_object e) w = (Resolved wire, w)
     \<and> statusCode wire = 500
     \<and> LambdaProxyResponse.body wire =
         ''{"name":'' @ QuoteJSONString (name e)
           @ '',"message":'' @ QuoteJSONString (message e)
           @ '',"stack":['' @ join '',''
               (map QuoteJSONString (case stack e of None \<Rightarrow> [] | Some s \<Rightarrow> split (CHR 0x0A) s))
           @ '']}''\<close>
  using createLambdaProxyResponse_Error_object [of E e]
  by (auto simp: restApiProxy_catch_def Let_def)

lemma restApiProxy_catch_part001_Error_object:
  \<open>\<exists>wire. restApiProxy_catch_part001 E W (Error_object e) w
         = (Resolved wire, handleError W (Error_object e) w)
     \<and> statusCode wire = 500
     \<and> LambdaProxyResponse.body wire =
         ''{"name":'' @ QuoteJSONString (name e)
           @ '',"message":'' @ QuoteJSONString (message e)
           @ '',"stack":['' @ join '',''
               (map QuoteJSONString (case stack e of None \<Rightarrow> [] | Some s \<Rightarrow> split (CHR 0x0A) s))
           @ '']}''\<close>
  using createLambdaProxyResponse_Error_object [of E e]
  by (auto simp: restApiProxy_catch_part001_def Let_def)

text \<open>
  When what was caught is \<open>null\<close> or \<open>undefined\<close>, the \<open>catch\<close> block throws at
  \<open>error.name\<close>: the function made by \<open>restApiProxy\<close> rejects with the engine's
  \<open>TypeError\<close>, and in \<open>unnamed/part_001\<close> the error handler is not called.
\<close>

lemma restApiProxy_catch_null:
  "restApiProxy_catch E (Thrown_value JNull) w
     = (Rejected (Error_object (TypeError_property E JNull ''name'')), w)"
  "restApiProxy_catch E (Thrown_value JUndefined) w
     = (Rejected (Error_object (TypeError_property E JUndefined ''name'')), w)"
  "restApiProxy_catch_part001 E W (Thrown_value JNull) w
     = (Rejected (Error_object (TypeError_property E JNull ''name'')), w)"
  "restApiProxy_catch_part001 E W (Thrown_value JUndefined) w
     = (Rejected (Error_object (TypeError_property E JUndefined ''name'')), w)"
  by (simp_all add: restApiProxy_catch_def restApiProxy_catch_part001_def
      internal_error_response_def)

text \<open>
  Errors of the handler. If the caller's handler throws the \<open>Error\<close> object \<open>e\<close> or its
  promise rejects with it (an error the handler got from the container included), the
  function made by \<open>restApiProxy\<close> resolves: its wire response has \<open>statusCode\<close> 500
  and the body above. The copy in \<open>unnamed/part_001\<close> has in addition told the error
  handler.
\<close>

lemma restApiProxy_handler_error:
  \<open>(await (fst (handler (LambdaWrapper.container W) (createLambdaRequest E event) ctx w))
        = Inl (Error_object e)
      \<longrightarrow> (\<exists>wire. fst (restApiProxy E W handler event ctx w) = Resolved wire
            \<and> statusCode wire = 500
            \<and> LambdaProxyResponse.body wire =
                ''{"name":'' @ QuoteJSONString (name e)
                @ '',"message":'' @ QuoteJSONString (message e)
                @ '',"stack":['' @ join '',''
                    (map QuoteJSONString (case stack e of None \<Rightarrow> [] | Some s \<Rightarrow> split (CHR 0x0A) s))
                @ '']}''))
   \<and> (await (fst (handler1 (LambdaWrapper_part001.container W1) (createLambdaRequest_part001 E event) ctx w1))
        = Inl (Error_object e)
      \<longrightarrow> (\<exists>wire. fst (restApiProxy_part001 E W1 handler1 event ctx w1) = Resolved wire
            \<and> statusCode wire = 500
            \<and> LambdaProxyResponse.body wire =
                ''{"name":'' @ QuoteJSONString (name e)
                @ '',"message":'' @ QuoteJSONString (message e)
                @ '',"stack":['' @ join '',''
                    (map QuoteJSONString (case stack e of None \<Rightarrow> [] | Some s \<Rightarrow> split (CHR 0x0A) s))
                @ '']}'')
          \<and> snd (restApiProxy_part001 E W1 handler1 event ctx w1) =
              handleError W1 (Error_object e)
                (snd (handler1 (LambdaWrapper_part001.container W1) (createLambdaRequest_part001 E event) ctx w1)))\<close>
proof -
  { assume h: "await (fst (handler (LambdaWrapper.container W) (createLambdaRequest E event) ctx w))
               = Inl (Error_object e)"
  obtain r w' where hw:
    "handler (LambdaWrapper.container W) (createLambdaRequest E event) ctx w = (r, w')"
    by (cases "handler (LambdaWrapper.container W) (createLambdaRequest E event) ctx w")
  with h have "restApiProxy E W handler event ctx w = restApiProxy_catch E (Error_object e) w'"
    by (simp add: restApiProxy_def Let_def)
  with restApiProxy_catch_Error_object [of E e w']
  have \<open>\<exists>wire. fst (restApiProxy E W handler event ctx w) = Resolved wire
            \<and> statusCode wire = 500
            \<and> LambdaProxyResponse.body wire =
                ''{"name":'' @ QuoteJSONString (name e)
                @ '',"message":'' @ QuoteJSONString (message e)
                @ '',"stack":['' @ join '',''
                    (map QuoteJSONString (case stack e of None \<Rightarrow> [] | Some s \<Rightarrow> split (CHR 0x0A) s))
                @ '']}''\<close>
    by auto }
  moreover
  { assume h: "await (fst (handler1 (LambdaWrapper_part001.container W1)
                           (createLambdaRequest_part001 E event) ctx w1))
               = Inl (Error_object e)"
  obtain r w' where hw:
    "handler1 (LambdaWrapper_part001.container W1) (createLambdaRequest_part001 E event) ctx w1
       = (r, w')"
    by (cases "handler1 (LambdaWrapper_part001.container W1)
                 (createLambdaRequest_part001 E event) ctx w1")
  with h have "restApiProxy_part001 E W1 handler1 event ctx w1
                 = restApiProxy_catch_part001 E W1 (Error_object e) w'"
    by (simp add: restApiProxy_part001_def Let_def)
  with restApiProxy_catch_part001_Error_object [of E W1 e w'] hw
  have \<open>(\<exists>wire. fst (restApiProxy_part001 E W1 handler1 event ctx w1) = Resolved wire
            \<and> statusCode wire = 500
            \<and> LambdaProxyResponse.body wire =
                ''{"name":'' @ QuoteJSONString (name e)
                @ '',"message":'' @ QuoteJSONString (message e)
                @ '',"stack":['' @ join '',''
                    (map QuoteJSONString (case stack e of None \<Rightarrow> [] | Some s \<Rightarrow> split (CHR 0x0A) s))
                @ '']}'')
          \<and> snd (restApiProxy_part001 E W1 handler1 event ctx w1) =
              handleError W1 (Error_object e)
                (snd (handler1 (LambdaWrapper_part001.container W1) (createLambdaRequest_part001 E event) ctx w1))\<close>
    by auto }
  ultimately show ?thesis by blast
qed

text \<open>
  Errors of decoding. On the payload \<open>null\<close> \<open>createLambdaRequest\<close> throws the engine's
  \<open>TypeError\<close> before the handler is called; the function made by \<open>restApiProxy\<close>
  resolves with \<open>statusCode\<close> 500 and the body made of that error, and the copy in
  \<open>unnamed/part_001\<close> has told the error handler.
\<close>

lemma restApiProxy_decoding_error:
  \<open>\<exists>wire. restApiProxy_received E W handler None ctx w = (Resolved wire, w)
     \<and> statusCode wire = 500
     \<and> LambdaProxyResponse.body wire =
         ''{"name":'' @ QuoteJSONString (name (TypeError_property E JNull ''headers''))
           @ '',"message":'' @ QuoteJSONString (message (TypeError_property E JNull ''headers''))
           @ '',"stack":['' @ join '',''
               (map QuoteJSONString (case stack (TypeError_property E JNull ''headers'') of
                                       None \<Rightarrow> [] | Some s \<Rightarrow> split (CHR 0x0A) s))
           @ '']}''\<close>
  \<open>\<exists>wire. restApiProxy_received_part001 E W1 handler1 None ctx w1
         = (Resolved wire,
            handleError W1 (Error_object (TypeError_property E JNull ''requestContext'')) w1)
     \<and> statusCode wire = 500
     \<and> LambdaProxyResponse.body wire =
         ''{"name":'' @ QuoteJSONString (name (TypeError_property E JNull ''requestContext''))
           @ '',"message":'' @ QuoteJSONString (message (TypeError_property E JNull ''requestContext''))
           @ '',"stack":['' @ join '',''
               (map QuoteJSONString (case stack (TypeError_property E JNull ''requestContext'') of
                                       None \<Rightarrow> [] | Some s \<Rightarrow> split (CHR 0x0A) s))
           @ '']}''\<close>
  using restApiProxy_catch_Error_object [of E "TypeError_property E JNull ''headers''" w]
    restApiProxy_catch_part001_Error_object
      [of E W1 "TypeError_property E JNull ''requestContext''" w1]
  by (simp_all add: restApiProxy_received_def restApiProxy_received_part001_def)

text \<open>
  C3, at the input where the code departs from it. An asynchronous handler that throws
  \<open>null\<close> makes the function made by \<open>restApiProxy\<close> reject with the engine's
  \<open>TypeError\<close> for reading \<open>name\<close> from \<open>null\<close>, in both copies; in
  \<open>unnamed/part_001\<close> the registered error handler has been told nothing. No wire
  response is made.
\<close>

theorem restApiProxy_null_rejection_propagates:
  "restApiProxy sample_engine (new_LambdaWrapper ()) null_rejecting_handler sample_event () ()
     = (Rejected (Error_object (TypeError_property sample_engine JNull ''name'')), ())
   \<and> restApiProxy_part001 sample_engine (logging_wrapper ()) null_rejecting_handler
        sample_event () []
     = (Rejected (Error_object (TypeError_property sample_engine JNull ''name'')), [])
   \<and> name (TypeError_property sample_engine JNull ''name'') = ''TypeError''
   \<and> message (TypeError_property sample_engine JNull ''name'')
       = ''Cannot read properties of null (reading 'name')''"
  by (simp add: restApiProxy_def restApiProxy_part001_def null_rejecting_handler_def Let_def
      restApiProxy_catch_def restApiProxy_catch_part001_def internal_error_response_def
      sample_engine_def sample_TypeError_def)

text \<open>
  Two runs that end in a response of status 500: a handler whose promise rejects with
  \<open>Error("boom")\<close>, in \<open>unnamed/part_001\<close> with the logging error handler, and a
  handler that asks the container for a service without initiator, in Lambda.ts.
\<close>

lemma restApiProxy_boom_example:
  \<open>restApiProxy_part001 sample_engine (logging_wrapper ()) rejecting_handler sample_event () []
     = (Resolved \<lparr> statusCode = 500,
           headers = [(''content-type'', ''application/json''),
                      (''content-length'', ''89''),
                      (''access-control-allow-origin'', ''*''),
                      (''access-control-allow-headers'', ''*''),
                      (''access-control-allow-methods'', ''*''),
                      (''access-control-allow-credentials'', ''*'')],
           body = ''{"name":"Error","message":"boom","stack":["Error: boom","    at handler (index.js:3:9)"]}'' \<rparr>,
        [boom])\<close>
  by (simp add: restApiProxy_part001_def rejecting_handler_def Let_def
      restApiProxy_catch_part001_def internal_error_response_def boom_def
      logging_wrapper_def registerErrorHandler_def new_LambdaWrapper_part001_def handleError_def
      createLambdaProxyResponse_def QuoteJSONString_def QuoteJSONChar_def
      js_length_def decimal.simps digit_char_def ResponseHeader_ContentType_def
      ResponseHeader_ContentLength_def ResponseHeader_AccessControlAllowOrigin_def
      ResponseHeader_AccessControlAllowHeaders_def ResponseHeader_AccessControlAllowMethods_def
      ResponseHeader_AccessControlAllowCredentials_def)

lemma restApiProxy_missing_initiator_example:
  \<open>\<exists>wire. restApiProxy sample_engine (new_LambdaWrapper sample_container)
              (service_handler ''mailer'') sample_event () new_state = (Resolved wire, new_state)
     \<and> statusCode wire = 500
     \<and> LambdaProxyResponse.body wire =
         ''{"name":"ContainerMissingServiceInitiatorError","message":''
         @ QuoteJSONString (message (ContainerMissingServiceError sample_engine ''mailer''))
         @ '',"stack":['' @ join '',''
             (map QuoteJSONString
                (case stack (ContainerMissingServiceError sample_engine ''mailer'') of
                   None \<Rightarrow> [] | Some s \<Rightarrow> split (CHR 0x0A) s))
         @ '']}''\<close>
proof -
  have h: "service_handler ''mailer'' (LambdaWrapper.container (new_LambdaWrapper sample_container))
             (createLambdaRequest sample_engine sample_event) () new_state
           = (Returns (Rejected (Error_object (ContainerMissingServiceError sample_engine ''mailer''))),
              new_state)"
    by (simp add: service_handler_def service_def sample_container_def new_LambdaWrapper_def
        new_state_def new_Container_state_def empty_object_def Object_prototype_names_def)
  then have "restApiProxy sample_engine (new_LambdaWrapper sample_container)
              (service_handler ''mailer'') sample_event () new_state
           = restApiProxy_catch sample_engine
               (Error_object (ContainerMissingServiceError sample_engine ''mailer'')) new_state"
    by (simp add: restApiProxy_def Let_def)
  moreover have \<open>QuoteJSONString (name (ContainerMissingServiceError sample_engine ''mailer''))
      = ''"ContainerMissingServiceInitiatorError"''\<close>
    by (simp add: ContainerMissingServiceError_def NameAwareError_def Let_def
        ContainerMissingServiceErrorName_def QuoteJSONString_def QuoteJSONChar_def)
  ultimately show ?thesis
    using restApiProxy_catch_Error_object
      [of sample_engine "ContainerMissingServiceError sample_engine ''mailer''" new_state]
    by simp
qed

text \<open>
  The raw-event path. In Lambda.ts \<open>handle\<close> hands on what the handler does: a throw
  becomes a rejection with the same error, a returned promise is returned. In
  \<open>unnamed/part_001\<close> a synchronous throw is told to the error handler and then
  rethrown, and a returned promise is returned as it is, rejected or not.
\<close>

lemma handle_propagates:
  "fst (handle W handler event ctx w) =
     (case fst (handler (LambdaWrapper.container W) event ctx w) of
        Throws e \<Rightarrow> Rejected e | Returns p \<Rightarrow> p)"
  by (simp add: handle_def split: prod.splits call.splits)

lemma handle_part001_sync_throw:
  assumes "handler (LambdaWrapper_part001.container W) event ctx w = (Throws e, w')"
  shows "handle_part001 W handler event ctx w = (Rejected e, handleError W e w')"
  using assms by (simp add: handle_part001_def Let_def)

lemma handle_part001_returned_promise:
  assumes "handler (LambdaWrapper_part001.container W) event ctx w = (Returns p, w')"
  shows "handle_part001 W handler event ctx w = (p, w')"
  using assms by (simp add: handle_part001_def)

text \<open>
  C4, at the input where the code departs from it. With an error handler registered
  that keeps the errors it is told of, an asynchronous handler that throws
  \<open>Error("boom")\<close> makes \<open>handle\<close> reject with that error while the error handler has
  been told nothing. The same error thrown synchronously is told to it, and so is the
  rejection on the HTTP path, where the handler's promise is awaited inside \<open>try\<close>.
\<close>

theorem handle_part001_rejection_not_notified:
  "handle_part001 (logging_wrapper ()) rejecting_handler sample_event () []
     = (Rejected boom :: unit promise, [])
   \<and> handle_part001 (logging_wrapper ()) throwing_handler sample_event () []
     = (Rejected boom :: unit promise, [boom])
   \<and> snd (restApiProxy_part001 sample_engine (logging_wrapper ()) rejecting_handler sample_event () [])
     = [boom]"
  by (simp add: handle_part001_def restApiProxy_part001_def logging_wrapper_def
      registerErrorHandler_def new_LambdaWrapper_part001_def handleError_def
      rejecting_handler_def throwing_handler_def Let_def
      createLambdaProxyResponse_def internal_error_response_def
      restApiProxy_catch_part001_def boom_def)

text \<open>
  The example of the specification, end to end: a \<open>GET /x\<close> event without parameters,
  headers or body, through a handler that answers \<open>{status: 200, data: {ok: true}}\<close>.
\<close>

lemma restApiProxy_example:
  \<open>restApiProxy sample_engine (new_LambdaWrapper sample_container) (service_handler ''aws.s3'')
       sample_event () new_state
     = (Resolved \<lparr> statusCode = 200,
           headers = [(''content-type'', ''application/json''),
                      (''content-length'', ''11''),
                      (''access-control-allow-origin'', ''*''),
                      (''access-control-allow-headers'', ''*''),
                      (''access-control-allow-methods'', ''*''),
                      (''access-control-allow-credentials'', ''*'')],
           body = ''{"ok":true}'' \<rparr>,
        new_state\<lparr>cache := (cache new_state)(''aws.s3'' := Some (S3 0)),
                   invoked := [''aws.s3''], world := 1\<rparr>)\<close>
  by (simp add: restApiProxy_def new_LambdaWrapper_def service_handler_def service_def
      sample_container_def new_state_def new_Container_state_def empty_object_def
      Object_prototype_names_def fresh_initiator_def Let_def
      createLambdaProxyResponse_def QuoteJSONString_def QuoteJSONChar_def
      js_length_def decimal.simps digit_char_def ResponseHeader_ContentType_def
      ResponseHeader_ContentLength_def ResponseHeader_AccessControlAllowOrigin_def
      ResponseHeader_AccessControlAllowHeaders_def ResponseHeader_AccessControlAllowMethods_def
      ResponseHeader_AccessControlAllowCredentials_def)

text \<open>
  C9. \<open>createLambdaRequest\<close> and \<open>createLambdaProxyResponse\<close> are functions of the engine
  and their argument alone. For the pipeline: two runs on the same event in which the
  handler does the same (throws the same error, or returns a promise settled the same
  way) give the same promise of a wire response, status, headers and body, whatever the
  states the runs start in, and in \<open>unnamed/part_001\<close> whatever the error handlers.
\<close>

theorem restApiProxy_deterministic:
  "(fst (handler (LambdaWrapper.container W) (createLambdaRequest E event) ctx w)
      = fst (handler' (LambdaWrapper.container W') (createLambdaRequest E event) ctx' w')
     \<longrightarrow> fst (restApiProxy E W handler event ctx w) = fst (restApiProxy E W' handler' event ctx' w'))
   \<and> (fst (handler1 (LambdaWrapper_part001.container W1) (createLambdaRequest_part001 E event) ctx w1)
      = fst (handler1' (LambdaWrapper_part001.container W1') (createLambdaRequest_part001 E event) ctx' w1')
     \<longrightarrow> fst (restApiProxy_part001 E W1 handler1 event ctx w1)
         = fst (restApiProxy_part001 E W1' handler1' event ctx' w1'))"
  by (auto simp: restApiProxy_def restApiProxy_part001_def restApiProxy_catch_def
      restApiProxy_catch_part001_def Let_def split: prod.splits sum.splits)

theorem restApiProxy_deterministic_witness:
  "fst (service_handler ''aws.s3'' (LambdaWrapper.container (new_LambdaWrapper sample_container))
          (createLambdaRequest sample_engine sample_event) () new_state)
     = fst (service_handler ''aws.s3'' (LambdaWrapper.container (new_LambdaWrapper sample_container))
          (createLambdaRequest sample_engine sample_event) ()
          (snd (service sample_engine sample_container ''aws.s3'' new_state)))
   \<and> snd (service sample_engine sample_container ''aws.s3'' new_state) \<noteq> new_state
   \<and> fst (restApiProxy sample_engine (new_LambdaWrapper sample_container)
            (service_handler ''aws.s3'') sample_event () new_state)
     = fst (restApiProxy sample_engine (new_LambdaWrapper sample_container)
            (service_handler ''aws.s3'') sample_event ()
            (snd (service sample_engine sample_container ''aws.s3'' new_state)))
   \<and> fst ((rejecting_handler ::
              (unit, LambdaRequest_part001, unit, ResponseKind, thrown list) handler_function)
            (LambdaWrapper_part001.container (logging_wrapper ()))
            (createLambdaRequest_part001 sample_engine sample_event) () [])
     = fst ((rejecting_handler ::
              (unit, LambdaRequest_part001, unit, ResponseKind, thrown list) handler_function)
            (LambdaWrapper_part001.container (new_LambdaWrapper_part001 ()))
            (createLambdaRequest_part001 sample_engine sample_event) () [boom])
   \<and> fst (restApiProxy_part001 sample_engine (logging_wrapper ()) rejecting_handler
            sample_event () [])
     = fst (restApiProxy_part001 sample_engine (new_LambdaWrapper_part001 ()) rejecting_handler
            sample_event () [boom])"
proof -
  have s: "snd (service sample_engine sample_container ''aws.s3'' new_state)
             = new_state\<lparr>cache := (cache new_state)(''aws.s3'' := Some (S3 0)),
                          invoked := [''aws.s3''], world := 1\<rparr>"
    by (simp add: service_def sample_container_def fresh_initiator_def new_state_def
        new_Container_state_def empty_object_def Object_prototype_names_def)
  have d: "snd (service sample_engine sample_container ''aws.s3'' new_state) \<noteq> new_state"
  proof
    assume "snd (service sample_engine sample_container ''aws.s3'' new_state) = new_state"
    then have "world (snd (service sample_engine sample_container ''aws.s3'' new_state))
                 = world new_state"
      by simp
    then show False
      by (simp add: s) (simp add: new_state_def new_Container_state_def)
  qed
  have a: "fst (service_handler ''aws.s3'' (LambdaWrapper.container (new_LambdaWrapper sample_container))
          (createLambdaRequest sample_engine sample_event) () new_state)
     = fst (service_handler ''aws.s3'' (LambdaWrapper.container (new_LambdaWrapper sample_container))
          (createLambdaRequest sample_engine sample_event) ()
          (snd (service sample_engine sample_container ''aws.s3'' new_state)))"
    unfolding s
    by (simp add: service_handler_def service_def new_LambdaWrapper_def sample_container_def
        fresh_initiator_def new_state_def new_Container_state_def empty_object_def
        Object_prototype_names_def)
  have b: "fst ((rejecting_handler ::
              (unit, LambdaRequest_part001, unit, ResponseKind, thrown list) handler_function)
            (LambdaWrapper_part001.container (logging_wrapper ()))
            (createLambdaRequest_part001 sample_engine sample_event) () [])
     = fst ((rejecting_handler ::
              (unit, LambdaRequest_part001, unit, ResponseKind, thrown list) handler_function)
            (LambdaWrapper_part001.container (new_LambdaWrapper_part001 ()))
            (createLambdaRequest_part001 sample_engine sample_event) () [boom])"
    by (simp add: rejecting_handler_def)
  note T = restApiProxy_deterministic [where E = sample_engine and event = sample_event
      and handler = "service_handler ''aws.s3''" and handler' = "service_handler ''aws.s3''"
      and W = "new_LambdaWrapper sample_container" and W' = "new_LambdaWrapper sample_container"
      and ctx = "()" and ctx' = "()" and w = new_state
      and w' = "snd (service sample_engine sample_container ''aws.s3'' new_state)"
      and ?handler1.0 = rejecting_handler and ?handler1' = rejecting_handler
      and ?W1.0 = "logging_wrapper ()" and ?W1' = "new_LambdaWrapper_part001 ()"
      and ?w1.0 = "[]" and ?w1' = "[boom]"]
  from T a have A: "fst (restApiProxy sample_engine (new_LambdaWrapper sample_container)
            (service_handler ''aws.s3'') sample_event () new_state)
     = fst (restApiProxy sample_engine (new_LambdaWrapper sample_container)
            (service_handler ''aws.s3'') sample_event ()
            (snd (service sample_engine sample_container ''aws.s3'' new_state)))"
    by blast
  from T b have B: "fst (restApiProxy_part001 sample_engine (logging_wrapper ()) rejecting_handler
            sample_event () [])
     = fst (restApiProxy_part001 sample_engine (new_LambdaWrapper_part001 ()) rejecting_handler
            sample_event () [boom])"
    by blast
  from a d A b B show ?thesis by blast
qed

end
